theory Spec2Isabelle
  imports Main
begin

section \<open>Data model of the client (client.go)\<close>

text \<open>
  Modelled from the spec: package \<open>connectivity\<close> is not among the sources. The spec
  lists its five states, which are the ones \<open>client.go\<close> names.
\<close>

datatype State = Idle | Connecting | Ready | TransientFailure | Shutdown

type_synonym error = string
type_synonym Duration = nat
type_synonym bytes = "nat list"

definition errConnClosing :: error where
  "errConnClosing = ''grpc: the connection is closing''"

text \<open>
  Modelled from the spec: package \<open>internal/backoff\<close> is not among the sources. The spec
  describes a Strategy as a stateful generator of successive retry delays that can be
  reset to its initial state. The model is the sequence of delays the generator yields
  after a reset together with the number of delays drawn since the last reset.
\<close>

record Strategy =
  delays :: "nat \<Rightarrow> Duration"
  drawn :: nat

definition NextBackOff :: "Strategy \<Rightarrow> Duration \<times> Strategy" where
  "NextBackOff b = (delays b (drawn b), b\<lparr>drawn := Suc (drawn b)\<rparr>)"

definition Reset :: "Strategy \<Rightarrow> Strategy" where
  "Reset b = b\<lparr>drawn := 0\<rparr>"

text \<open>
  Modelled from the spec: the declaration of \<open>ConnectOptions\<close> is not among the
  sources. The spec names the transport-security object and the buffer sizes as its
  content; only the field \<open>TransportCredentials\<close> is assigned in the sources (by
  \<open>WithTransportCreds\<close>), the buffer sizes being commented out in
  \<open>defaultDialOptions\<close>. A nil interface value is \<open>None\<close>.
\<close>

record ConnectOptions =
  TransportCredentials :: "nat option"

record dialOptions =
  copts :: ConnectOptions
  bs :: "Strategy option"

definition defaultDialOptions :: dialOptions where
  "defaultDialOptions = \<lparr>copts = \<lparr>TransportCredentials = None\<rparr>, bs = None\<rparr>"

text \<open>
  \<open>addrConn\<close>. The fields \<open>addr\<close>, \<open>dopts\<close>, \<open>transport\<close> and \<open>state\<close> are the Go
  fields. A transport is identified by a number; \<open>transport = None\<close> is the nil
  interface. The channel \<open>stateCh\<close> is represented by the sequence of values sent on
  it. The remaining fields record the effects on the objects an \<open>addrConn\<close> owns or
  creates: \<open>cancelled\<close> tells whether \<open>ac.cancel()\<close> was called, \<open>closedTrs\<close> lists the
  transports whose \<open>Close()\<close> was called, \<open>writes\<close> the frames handed to
  \<open>Write\<close>, \<open>onceDone\<close> the transports whose \<open>sync.Once\<close> in \<open>createTransport\<close> has
  run, and \<open>fired\<close> the transports whose reconnect event has fired.
\<close>

record addrConn =
  addr :: string
  dopts :: dialOptions
  transport :: "nat option"
  state :: State
  stateCh :: "State list"
  cancelled :: bool
  closedTrs :: "nat list"
  writes :: "(nat \<times> bytes) list"
  onceDone :: "nat list"
  fired :: "nat list"

section \<open>The connectivity state machine\<close>

definition updateConnectivityState :: "State \<Rightarrow> addrConn \<Rightarrow> addrConn" where
  "updateConnectivityState s ac =
     (if state ac = s then ac
      else ac\<lparr>state := s, stateCh := stateCh ac @ [s]\<rparr>)"

text \<open>
  \<open>connect\<close> returns its error (\<open>None\<close> is nil), whether it started a
  \<open>resetTransport\<close> goroutine (the \<open>go\<close> statement), and the connection.
\<close>

definition connect :: "addrConn \<Rightarrow> error option \<times> bool \<times> addrConn" where
  "connect ac =
     (if state ac = Shutdown then (Some errConnClosing, False, ac)
      else if state ac \<noteq> Idle then (None, False, ac)
      else (None, True, updateConnectivityState Connecting ac))"

definition teardown :: "addrConn \<Rightarrow> addrConn" where
  "teardown ac =
     (if state ac = Shutdown then ac
      else
        let ac1 = updateConnectivityState Shutdown ac;
            curTr = transport ac1;
            ac2 = ac1\<lparr>transport := None\<rparr>;
            ac3 = ac2\<lparr>cancelled := True\<rparr>
        in (case curTr of
              None \<Rightarrow> ac3
            | Some t \<Rightarrow> ac3\<lparr>closedTrs := closedTrs ac3 @ [t]\<rparr>))"

text \<open>
  The \<open>onClose\<close> callback that \<open>createTransport\<close> hands to the transport \<open>t\<close>. The
  state update is guarded by the transport's \<open>sync.Once\<close>; the reconnect event is
  fired on every call, and firing a fired event changes nothing.
\<close>

definition onClose :: "nat \<Rightarrow> addrConn \<Rightarrow> addrConn" where
  "onClose t ac =
     (let ac1 =
        (if t \<in> set (onceDone ac) then ac
         else (if state ac = Ready then updateConnectivityState Idle ac else ac)
                \<lparr>onceDone := onceDone ac @ [t]\<rparr>)
      in ac1\<lparr>fired := List.insert t (fired ac1)\<rparr>)"

text \<open>
  \<open>resetTransport\<close> is a loop that blocks in four places. A \<open>pc\<close> names the place where
  the goroutine stands, together with its local variables that are live there; an
  \<open>event\<close> is what lets it go on. One step runs the code up to the next place where
  it blocks; each step that touches the connection does so under \<open>ac.mu\<close>.
\<close>

datatype pc =
    Top
  | Dialing Duration
  | BackingOff Duration
  | AwaitReconnect nat
  | Returned
  | Panicked

datatype event =
    Enter
  | DialErr
  | DialOk nat
  | TimerFired
  | CtxDone
  | ReconnectDone

fun resetTransport_step :: "pc \<Rightarrow> event \<Rightarrow> addrConn \<Rightarrow> (pc \<times> addrConn) option" where
  "resetTransport_step Top Enter ac =
     (if state ac = Shutdown then Some (Returned, ac)
      else (case bs (dopts ac) of
              None \<Rightarrow> Some (Panicked, ac)
            | Some strat \<Rightarrow>
                let (backoffFor, strat1) = NextBackOff strat;
                    ac1 = ac\<lparr>dopts := (dopts ac)\<lparr>bs := Some strat1\<rparr>\<rparr>;
                    ac2 = ac1\<lparr>transport := None\<rparr>
                in Some (Dialing backoffFor, updateConnectivityState Connecting ac2)))"
| "resetTransport_step (Dialing backoffFor) DialErr ac =
     (if state ac = Shutdown then Some (Returned, ac)
      else Some (BackingOff backoffFor, updateConnectivityState TransientFailure ac))"
| "resetTransport_step (Dialing backoffFor) (DialOk newTr) ac =
     (if state ac = Shutdown
      then Some (Returned, ac\<lparr>closedTrs := closedTrs ac @ [newTr]\<rparr>)
      else (case bs (dopts ac) of
              None \<Rightarrow> Some (Panicked, ac\<lparr>transport := Some newTr\<rparr>)
            | Some strat \<Rightarrow>
                let ac1 = ac\<lparr>transport := Some newTr\<rparr>;
                    ac2 = ac1\<lparr>dopts := (dopts ac1)\<lparr>bs := Some (Reset strat)\<rparr>\<rparr>
                in Some (AwaitReconnect newTr, updateConnectivityState Ready ac2)))"
| "resetTransport_step (BackingOff backoffFor) TimerFired ac = Some (Top, ac)"
| "resetTransport_step (BackingOff backoffFor) CtxDone ac =
     (if cancelled ac then Some (Returned, ac) else None)"
| "resetTransport_step (AwaitReconnect t) ReconnectDone ac =
     (if t \<in> set (fired ac) then Some (Top, ac) else None)"
| "resetTransport_step _ _ _ = None"

text \<open>
  The goroutines of one \<open>addrConn\<close>: the connection and the place of every
  \<open>resetTransport\<close> goroutine that \<open>connect\<close> has started. An action is a call of
  \<open>connect\<close> or \<open>teardown\<close>, a step of the \<open>i\<close>-th retry loop, or the transport \<open>t\<close>
  calling its \<open>onClose\<close>.
\<close>

datatype sys_action = Connect | Loop nat event | OnClose nat | Teardown

type_synonym sys = "addrConn \<times> pc list"

fun sys_step :: "sys_action \<Rightarrow> sys \<Rightarrow> sys option" where
  "sys_step Connect (ac, ls) =
     (case connect ac of (err, started, ac1) \<Rightarrow> Some (ac1, if started then ls @ [Top] else ls))"
| "sys_step (Loop i ev) (ac, ls) =
     (if i < length ls
      then (case resetTransport_step (ls ! i) ev ac of
              None \<Rightarrow> None
            | Some (p, ac1) \<Rightarrow> Some (ac1, ls[i := p]))
      else None)"
| "sys_step (OnClose t) (ac, ls) = Some (onClose t ac, ls)"
| "sys_step Teardown (ac, ls) = Some (teardown ac, ls)"

fun run :: "sys_action list \<Rightarrow> sys \<Rightarrow> sys option" where
  "run [] s = Some s"
| "run (a # as) s = (case sys_step a s of None \<Rightarrow> None | Some s1 \<Rightarrow> run as s1)"

section \<open>The connection handle\<close>

text \<open>
  Modelled from the spec: package \<open>internal/message\<close> is not among the sources. The spec
  gives the two variants of the envelope and their fields. \<open>Message_nil\<close> is a message
  whose \<open>Exchange\<close> is neither, which \<open>handleRead\<close> treats in its default case.
\<close>

datatype Request = Request (req_CallId: string) (req_Method: string) (req_Payload: bytes)

datatype Response = Response (GetCallId: string) (GetPayload: bytes)

datatype Message = Message_Request Request | Message_Response Response | Message_nil

text \<open>
  \<open>ClientConn\<close>. The pointer \<open>conn\<close> is \<open>None\<close> when nil and holds the connection it
  points to otherwise. A channel made by \<open>registerMethodCall\<close> is identified by a
  number, \<open>nextChan\<close> being the next one to be made. The channel \<open>csCh\<close> is the
  \<open>stateCh\<close> of the connection.
\<close>

record ClientConn =
  target :: string
  cc_dopts :: dialOptions
  conn :: "addrConn option"
  methodCalls :: "string \<rightharpoonup> nat"
  nextChan :: nat

text \<open>
  A call on a nil pointer or on a nil interface value panics: \<open>Panics\<close>.
\<close>

datatype 'a result = Panics | Returns 'a

text \<open>
  A \<open>DialOption\<close> is an interface value: nil, or a \<open>funcDialOption\<close> wrapping a function
  on \<open>dialOptions\<close>. Calling \<open>apply\<close> on the nil interface panics. A
  \<open>funcDialOption\<close> is made by \<open>newFuncDialOption\<close> only, which the sources call with a
  function literal.
\<close>

datatype DialOption = NilOption | FuncDialOption "dialOptions \<Rightarrow> dialOptions"

definition DialOption_apply :: "DialOption \<Rightarrow> dialOptions \<Rightarrow> dialOptions result" where
  "DialOption_apply opt d =
     (case opt of
        NilOption \<Rightarrow> Panics
      | FuncDialOption f \<Rightarrow> Returns (f d))"

text \<open>
  \<open>WithTransportCreds\<close>: the credentials built from the keys (by functions outside the
  given sources) are the argument.
\<close>

definition WithTransportCreds :: "nat \<Rightarrow> DialOption" where
  "WithTransportCreds creds =
     FuncDialOption (\<lambda>o1. o1\<lparr>copts := (copts o1)\<lparr>TransportCredentials := Some creds\<rparr>\<rparr>)"

text \<open>
  The goroutines that a call starts with a \<open>go\<close> statement are part of its result.
\<close>

datatype goroutine = ListenForRead | ResetTransport

definition newAddrConn ::
    "ClientConn \<Rightarrow> string \<Rightarrow> error + (ClientConn \<times> addrConn \<times> goroutine list)" where
  "newAddrConn cc a =
     (let ac = \<lparr>addr = a, dopts = cc_dopts cc, transport = None, state = Idle, stateCh = [],
                cancelled = False, closedTrs = [], writes = [], onceDone = [], fired = []\<rparr>
      in Inr (cc\<lparr>conn := Some ac\<rparr>, ac, [ListenForRead]))"

text \<open>
  The loop of \<open>Dial\<close> that applies the options in order to \<open>cc.dopts\<close>.
\<close>

fun apply_opts :: "DialOption list \<Rightarrow> dialOptions \<Rightarrow> dialOptions result" where
  "apply_opts [] d = Returns d"
| "apply_opts (opt # opts) d =
     (case DialOption_apply opt d of
        Panics \<Rightarrow> Panics
      | Returns d1 \<Rightarrow> apply_opts opts d1)"

text \<open>
  \<open>Dial\<close> panics, or returns an error, or returns the handle; with the handle come the
  goroutines started for it, \<open>listenForRead\<close> by \<open>newAddrConn\<close> and \<open>resetTransport\<close>
  by \<open>connect\<close>. The strategy \<open>backoff.DefaultExponential\<close> of the absent package is a
  parameter.
\<close>

definition Dial ::
    "Strategy \<Rightarrow> string \<Rightarrow> DialOption list \<Rightarrow> (error + ClientConn \<times> goroutine list) result" where
  "Dial DefaultExponential tgt opts =
     (let cc0 = \<lparr>target = tgt, cc_dopts = defaultDialOptions, conn = None,
                 methodCalls = Map.empty, nextChan = 0\<rparr>
      in (case apply_opts opts (cc_dopts cc0) of
            Panics \<Rightarrow> Panics
          | Returns d \<Rightarrow>
              let cc1 = cc0\<lparr>cc_dopts := d\<rparr>;
                  cc2 = cc1\<lparr>cc_dopts := (cc_dopts cc1)\<lparr>bs := Some DefaultExponential\<rparr>\<rparr>
              in (case newAddrConn cc2 tgt of
                    Inl err \<Rightarrow> Returns (Inl ''Could not establish a connection'')
                  | Inr (cc3, addrConn, gs) \<Rightarrow>
                      (case connect addrConn of
                         (err, started, addrConn1) \<Rightarrow>
                           Returns (Inr (cc3\<lparr>conn := Some addrConn1\<rparr>,
                                         gs @ (if started then [ResetTransport] else [])))))))"

definition registerMethodCall :: "string \<Rightarrow> ClientConn \<Rightarrow> nat \<times> ClientConn" where
  "registerMethodCall id1 cc =
     (let wait = nextChan cc
      in (wait, cc\<lparr>methodCalls := (methodCalls cc)(id1 \<mapsto> wait), nextChan := Suc wait\<rparr>))"

definition removeMethodCall :: "string \<Rightarrow> ClientConn \<Rightarrow> ClientConn" where
  "removeMethodCall id1 cc = cc\<lparr>methodCalls := (methodCalls cc)(id1 := None)\<rparr>"

definition Close :: "ClientConn \<Rightarrow> (ClientConn \<times> addrConn) result" where
  "Close cc =
     (case conn cc of
        None \<Rightarrow> Panics
      | Some c \<Rightarrow> Returns (cc\<lparr>conn := None\<rparr>, teardown c))"

text \<open>
  \<open>Invoke\<close> up to its \<open>select\<close>: it panics, or returns an error, or has registered
  the call under \<open>callID\<close>, written the frame and waits on its channel.
  \<open>MarshalProtoMessage\<close> and \<open>proto.Marshal\<close> are outside the given sources and are
  parameters, as is the identifier that \<open>uuid.NewString\<close> returns.
\<close>

datatype invoke =
    InvokePanics
  | InvokeReturns error ClientConn
  | InvokeWaits string nat ClientConn

definition Invoke :: "('a \<Rightarrow> error + bytes) \<Rightarrow> (Message \<Rightarrow> error + bytes) \<Rightarrow> string \<Rightarrow>
    ClientConn \<Rightarrow> string \<Rightarrow> 'a \<Rightarrow> invoke" where
  "Invoke MarshalProtoMessage proto_Marshal uuid_NewString cc method args =
     (case conn cc of
        None \<Rightarrow> InvokePanics
      | Some c \<Rightarrow>
          if state c \<noteq> Ready then InvokeReturns ''connection is not ready'' cc
          else (case MarshalProtoMessage args of
                  Inl err \<Rightarrow> InvokeReturns err cc
                | Inr payload \<Rightarrow>
                    let callID = uuid_NewString;
                        msg = Message_Request (Request callID method payload)
                    in (case proto_Marshal msg of
                          Inl err \<Rightarrow> InvokeReturns err cc
                        | Inr msgB \<Rightarrow>
                            (case registerMethodCall callID cc of
                               (wait, cc1) \<Rightarrow>
                                 (case transport c of
                                    None \<Rightarrow> InvokePanics
                                  | Some t \<Rightarrow>
                                      InvokeWaits callID wait
                                        (cc1\<lparr>conn := Some (c\<lparr>writes := writes c @ [(t, msgB)]\<rparr>)\<rparr>))))))"

section \<open>The read-dispatch loops\<close>

text \<open>
  \<open>listenForRead\<close> receives the states sent on \<open>csCh\<close> one by one. \<open>started\<close> lists the
  \<open>handleRead\<close> goroutines it has started, each by the \<open>done\<close> channel it was given,
  and \<open>closedDone\<close> the \<open>done\<close> channels it has closed. The variable \<open>done\<close> of the
  loop body is declared anew, as nil, in every iteration; the channel made in the
  \<open>Ready\<close> branch is bound to a second variable of the same name, local to that branch.
\<close>

record readLoops =
  nextDone :: nat
  started :: "nat list"
  closedDone :: "nat list"

definition listenForRead_iter :: "State \<Rightarrow> readLoops \<Rightarrow> readLoops" where
  "listenForRead_iter s rl =
     (let done_outer = (None :: nat option)
      in if s = Ready
         then (let done_inner = nextDone rl
               in rl\<lparr>nextDone := Suc done_inner, started := started rl @ [done_inner]\<rparr>)
         else (case done_outer of
                 None \<Rightarrow> rl
               | Some d \<Rightarrow> rl\<lparr>closedDone := closedDone rl @ [d]\<rparr>))"

definition listenForRead :: "State list \<Rightarrow> readLoops \<Rightarrow> readLoops" where
  "listenForRead ss rl = fold listenForRead_iter ss rl"

text \<open>
  A \<open>handleRead\<close> goroutine returns only when its \<open>done\<close> channel is closed; the
  loops that are active are those started whose \<open>done\<close> channel is not closed.
\<close>

definition activeReaders :: "readLoops \<Rightarrow> nat list" where
  "activeReaders rl = filter (\<lambda>d. d \<notin> set (closedDone rl)) (started rl)"

section \<open>The call table under concurrent access\<close>

text \<open>
  The handle together with the goroutines that use its call table: callers inside
  \<open>Invoke\<close> and the \<open>handleRead\<close> loop. \<open>mu\<close> tells whether \<open>cc.mu\<close> is held between two
  steps; only \<open>handleMessageResponse\<close> holds it while blocked, in its send on the
  call's channel. A caller is identified by the channel it waits on. After
  registering it stands in its \<open>select\<close> (\<open>InSelect\<close>); when the timer case is taken
  it goes on to lock \<open>cc.mu\<close> (\<open>TimeoutChosen\<close>); it ends with the payload received or
  with the timeout error. The channels are unbuffered: a send completes only with a
  caller that stands in its \<open>select\<close>, and a \<open>select\<close> takes the receive case
  rather than the timer case while a sender waits on its channel.

  The \<open>handleRead\<close> loop stands at the head of its loop (\<open>AtHead\<close>), where it is about
  to evaluate \<open>cc.conn.transport.Read()\<close>; or in its \<open>select\<close> on the channel so
  obtained (\<open>Reading\<close>); or in the send of \<open>handleMessageResponse\<close> (\<open>Sending\<close>); or it
  has returned (\<open>Stopped\<close>). \<open>Exited\<close> and \<open>Crashed\<close> say that the process has ended,
  by \<open>log.Fatalln\<close> or by a panic.

  The actions: \<open>Register\<close> is the registration in \<open>Invoke\<close> under \<open>cc.mu\<close>;
  \<open>TimerFires\<close> is the \<open>select\<close> of a caller taking its \<open>time.After\<close> case;
  \<open>TimeoutRemove\<close> is the removal under \<open>cc.mu\<close> that follows it; \<open>Head\<close> is the
  evaluation of \<open>cc.conn.transport.Read()\<close> at the head of the loop of \<open>handleRead\<close>;
  \<open>Frame\<close> is the rest of one iteration on an inbound frame, up to the send in
  \<open>handleMessageResponse\<close> when the call is known; \<open>Rendezvous\<close> is that send
  meeting the receive in the caller's \<open>select\<close>, followed by the removal and the
  unlock; \<open>DoneClosed\<close> is \<open>handleRead\<close> returning on its \<open>done\<close> channel;
  \<open>CloseHandle\<close> is a call of \<open>Close\<close> on the handle.
\<close>

datatype caller_pc = InSelect | TimeoutChosen | GotReply bytes | GotTimeout

datatype reader_pc = AtHead | Reading | Sending nat Response | Stopped | Exited | Crashed

record world =
  cc :: ClientConn
  mu :: bool
  callers :: "nat \<rightharpoonup> string \<times> caller_pc"
  reader :: reader_pc

datatype action =
    Register string
  | TimerFires nat
  | TimeoutRemove nat
  | Head
  | Frame bytes
  | Rendezvous
  | DoneClosed
  | CloseHandle

text \<open>
  Whether the reader stands in a send on the channel \<open>ch\<close>, and whether the process
  has ended.
\<close>

definition sending_on :: "nat \<Rightarrow> reader_pc \<Rightarrow> bool" where
  "sending_on ch p = (case p of Sending call r \<Rightarrow> call = ch | _ \<Rightarrow> False)"

definition ended :: "reader_pc \<Rightarrow> bool" where
  "ended p = (case p of Exited \<Rightarrow> True | Crashed \<Rightarrow> True | _ \<Rightarrow> False)"

text \<open>
  The head of the loop of \<open>handleRead\<close>: \<open>cc.conn.transport.Read()\<close> is evaluated anew
  in every iteration, before the \<open>select\<close>. It panics when \<open>cc.conn\<close> is nil or when
  the \<open>transport\<close> of the connection is nil.
\<close>

definition loop_head :: "world \<Rightarrow> world" where
  "loop_head w =
     (case conn (cc w) of
        None \<Rightarrow> w\<lparr>reader := Crashed\<rparr>
      | Some c \<Rightarrow>
          (case transport c of
             None \<Rightarrow> w\<lparr>reader := Crashed\<rparr>
           | Some t \<Rightarrow> w\<lparr>reader := Reading\<rparr>))"

text \<open>
  \<open>handleMessageResponse\<close> up to its send: it waits for \<open>cc.mu\<close> (no step while it is
  held); when the call is unknown it returns at once, and \<open>handleRead\<close> is back at the
  head of its loop; otherwise it stands in the send, holding \<open>cc.mu\<close>.
\<close>

definition handleMessageResponse :: "Response \<Rightarrow> world \<Rightarrow> world option" where
  "handleMessageResponse r w =
     (if mu w then None
      else (let callID = GetCallId r
            in (case methodCalls (cc w) callID of
                  None \<Rightarrow> Some (w\<lparr>reader := AtHead\<rparr>)
                | Some call \<Rightarrow> Some (w\<lparr>mu := True, reader := Sending call r\<rparr>))))"

text \<open>
  The body of one iteration of \<open>handleRead\<close> on the inbound frame \<open>inb\<close>.
  \<open>UnmarshalProtoMessage\<close> is outside the given sources and is a parameter.
  \<open>log.Fatalln\<close> ends the process; in the other cases the loop goes back to its head.
\<close>

definition handleRead :: "(bytes \<Rightarrow> error + Message) \<Rightarrow> bytes \<Rightarrow> world \<Rightarrow> world option" where
  "handleRead UnmarshalProtoMessage inb w =
     (case UnmarshalProtoMessage inb of
        Inl err \<Rightarrow> Some (w\<lparr>reader := Exited\<rparr>)
      | Inr (Message_Request rq) \<Rightarrow> Some (w\<lparr>reader := AtHead\<rparr>)
      | Inr (Message_Response r) \<Rightarrow> handleMessageResponse r w
      | Inr Message_nil \<Rightarrow> Some (w\<lparr>reader := AtHead\<rparr>))"

fun mux_step :: "(bytes \<Rightarrow> error + Message) \<Rightarrow> action \<Rightarrow> world \<Rightarrow> world option" where
  "mux_step um (Register callID) w =
     (if mu w then None
      else (case registerMethodCall callID (cc w) of
              (wait, cc1) \<Rightarrow>
                Some (w\<lparr>cc := cc1, callers := (callers w)(wait \<mapsto> (callID, InSelect))\<rparr>)))"
| "mux_step um (TimerFires ch) w =
     (case callers w ch of
        Some (callID, InSelect) \<Rightarrow>
          if sending_on ch (reader w) then None
          else Some (w\<lparr>callers := (callers w)(ch \<mapsto> (callID, TimeoutChosen))\<rparr>)
      | _ \<Rightarrow> None)"
| "mux_step um (TimeoutRemove ch) w =
     (case callers w ch of
        Some (callID, TimeoutChosen) \<Rightarrow>
          if mu w then None
          else Some (w\<lparr>cc := removeMethodCall callID (cc w),
                       callers := (callers w)(ch \<mapsto> (callID, GotTimeout))\<rparr>)
      | _ \<Rightarrow> None)"
| "mux_step um Head w =
     (case reader w of
        AtHead \<Rightarrow> Some (loop_head w)
      | _ \<Rightarrow> None)"
| "mux_step um (Frame inb) w =
     (case reader w of
        Reading \<Rightarrow> handleRead um inb w
      | _ \<Rightarrow> None)"
| "mux_step um Rendezvous w =
     (case reader w of
        Sending call r \<Rightarrow>
          (case callers w call of
             Some (callID, InSelect) \<Rightarrow>
               Some (w\<lparr>cc := removeMethodCall (GetCallId r) (cc w),
                       mu := False,
                       callers := (callers w)(call \<mapsto> (callID, GotReply (GetPayload r))),
                       reader := AtHead\<rparr>)
           | _ \<Rightarrow> None)
      | _ \<Rightarrow> None)"
| "mux_step um DoneClosed w =
     (case reader w of
        Reading \<Rightarrow> Some (w\<lparr>reader := Stopped\<rparr>)
      | _ \<Rightarrow> None)"
| "mux_step um CloseHandle w =
     (if mu w then None
      else (case Close (cc w) of
              Panics \<Rightarrow> Some (w\<lparr>reader := Crashed\<rparr>)
            | Returns (cc1, ac1) \<Rightarrow> Some (w\<lparr>cc := cc1\<rparr>)))"

text \<open>
  No goroutine takes a step once the process has ended.
\<close>

definition step :: "(bytes \<Rightarrow> error + Message) \<Rightarrow> action \<Rightarrow> world \<Rightarrow> world option" where
  "step um a w = (if ended (reader w) then None else mux_step um a w)"

fun steps :: "(bytes \<Rightarrow> error + Message) \<Rightarrow> action list \<Rightarrow> world \<Rightarrow> world option" where
  "steps um [] w = Some w"
| "steps um (a # as) w = (case step um a w of None \<Rightarrow> None | Some w1 \<Rightarrow> steps um as w1)"

section \<open>Example values\<close>

text \<open>
  A strategy whose delays double, a connection and a handle in a given state, and the
  schedule of \<open>n\<close> failed dial attempts of the first retry loop.
\<close>

definition exponential :: Strategy where
  "exponential = \<lparr>delays = (\<lambda>n. 2 ^ n), drawn = 0\<rparr>"

definition conn_in :: "State \<Rightarrow> nat option \<Rightarrow> addrConn" where
  "conn_in st tr =
     \<lparr>addr = ''peer:1'', dopts = \<lparr>copts = \<lparr>TransportCredentials = None\<rparr>, bs = Some exponential\<rparr>,
      transport = tr, state = st, stateCh = [], cancelled = False, closedTrs = [],
      writes = [], onceDone = [], fired = []\<rparr>"

definition handle_in :: "State \<Rightarrow> nat option \<Rightarrow> ClientConn" where
  "handle_in st tr =
     \<lparr>target = ''peer:1'', cc_dopts = dopts (conn_in st tr), conn = Some (conn_in st tr),
      methodCalls = Map.empty, nextChan = 0\<rparr>"

definition failures :: "nat \<Rightarrow> sys_action list" where
  "failures n = concat (replicate n [Loop 0 Enter, Loop 0 DialErr, Loop 0 TimerFired])"

text \<open>
  A decoder for two inbound frames, a handle with no call in flight, the same handle
  with the call \<open>call-1\<close> pending, and the configuration in which the response to
  \<open>call-1\<close> is being sent while its caller has taken the timeout case.
\<close>

definition unmarshal1 :: "bytes \<Rightarrow> error + Message" where
  "unmarshal1 inb =
     (if inb = [1] then Inr (Message_Response (Response ''call-1'' [7]))
      else if inb = [2] then Inr (Message_Response (Response ''call-2'' [9]))
      else Inl ''malformed'')"

definition world0 :: world where
  "world0 = \<lparr>cc = handle_in Ready (Some 0), mu = False, callers = Map.empty, reader = Reading\<rparr>"

definition pending1 :: world where
  "pending1 =
     \<lparr>cc = (handle_in Ready (Some 0))\<lparr>methodCalls := [''call-1'' \<mapsto> 0], nextChan := 1\<rparr>,
      mu = False,
      callers = [0 \<mapsto> (''call-1'', InSelect)],
      reader = Reading\<rparr>"

definition deadlocked :: world where
  "deadlocked =
     \<lparr>cc = (handle_in Ready (Some 0))\<lparr>methodCalls := [''call-1'' \<mapsto> 0], nextChan := 1\<rparr>,
      mu = True,
      callers = [0 \<mapsto> (''call-1'', TimeoutChosen)],
      reader = Sending 0 (Response ''call-1'' [7])\<rparr>"

section \<open>connect\<close>

text \<open>
  Claim C4. \<open>connect\<close> returns the closing error when the state is \<open>Shutdown\<close>; it
  returns nil and changes nothing when the state is \<open>Connecting\<close>, \<open>Ready\<close> or
  \<open>TransientFailure\<close>; from \<open>Idle\<close> it moves the state to \<open>Connecting\<close>, publishes it,
  and returns nil having only started the retry loop as a goroutine of its own.
\<close>

theorem connect_cases:
  "(state ac = Shutdown \<longrightarrow> connect ac = (Some errConnClosing, False, ac)) \<and>
   (state ac \<in> {Connecting, Ready, TransientFailure} \<longrightarrow> connect ac = (None, False, ac)) \<and>
   (state ac = Idle \<longrightarrow>
      connect ac = (None, True, ac\<lparr>state := Connecting, stateCh := stateCh ac @ [Connecting]\<rparr>))"
  by (auto simp: connect_def updateConnectivityState_def)

text \<open>
  The three cases at a connection that is shut down, one that is ready and one that is
  idle.
\<close>

theorem connect_cases_witness:
  "connect (conn_in Shutdown None) = (Some errConnClosing, False, conn_in Shutdown None) \<and>
   connect (conn_in Ready (Some 0)) = (None, False, conn_in Ready (Some 0)) \<and>
   connect (conn_in Idle None) =
     (None, True, (conn_in Idle None)\<lparr>state := Connecting, stateCh := [Connecting]\<rparr>)"
  using connect_cases [of "conn_in Shutdown None"] connect_cases [of "conn_in Ready (Some 0)"]
    connect_cases [of "conn_in Idle None"]
  by (simp add: conn_in_def)

section \<open>teardown, and Shutdown as a terminal state\<close>

lemma step_keeps_Shutdown:
  "state ac = Shutdown \<Longrightarrow> resetTransport_step p ev ac = Some (p', ac') \<Longrightarrow> state ac' = Shutdown"
  by (cases "(p, ev, ac)" rule: resetTransport_step.cases) (auto split: if_splits)

lemma connect_keeps_Shutdown: "state ac = Shutdown \<Longrightarrow> state (snd (snd (connect ac))) = Shutdown"
  by (simp add: connect_def)

lemma onClose_keeps_Shutdown: "state ac = Shutdown \<Longrightarrow> state (onClose t ac) = Shutdown"
  by (simp add: onClose_def Let_def)

lemma teardown_Shutdown: "state (teardown ac) = Shutdown"
  by (simp add: teardown_def updateConnectivityState_def Let_def split: option.splits)

lemma sys_step_keeps_Shutdown:
  "state (fst s) = Shutdown \<Longrightarrow> sys_step a s = Some s' \<Longrightarrow> state (fst s') = Shutdown"
  by (cases "(a, s)" rule: sys_step.cases)
     (auto simp: connect_def onClose_keeps_Shutdown teardown_Shutdown
           split: if_splits option.splits dest: step_keeps_Shutdown)

lemma run_keeps_Shutdown:
  "state (fst s) = Shutdown \<Longrightarrow> run as s = Some s' \<Longrightarrow> state (fst s') = Shutdown"
proof (induction as arbitrary: s)
  case Nil
  then show ?case by simp
next
  case (Cons a as)
  from Cons.prems(2) obtain s1 where s1: "sys_step a s = Some s1" and r: "run as s1 = Some s'"
    by (auto split: option.splits)
  from sys_step_keeps_Shutdown [OF Cons.prems(1) s1] have "state (fst s1) = Shutdown" .
  then show ?case using Cons.IH r by blast
qed

lemma teardown_first:
  "state ac \<noteq> Shutdown \<Longrightarrow>
   teardown ac = ac\<lparr>state := Shutdown, stateCh := stateCh ac @ [Shutdown], transport := None,
       cancelled := True,
       closedTrs := closedTrs ac @ (case transport ac of None \<Rightarrow> [] | Some t \<Rightarrow> [t])\<rparr>"
  by (simp add: teardown_def updateConnectivityState_def Let_def split: option.splits)

lemma teardown_second: "teardown (teardown ac) = teardown ac"
  using teardown_Shutdown [of ac] by (simp add: teardown_def [of "teardown ac"])

text \<open>
  Claim C5. The first \<open>teardown\<close> moves the connection to \<open>Shutdown\<close> (and publishes
  it), closes the current transport if there is one, clears the transport reference and
  cancels the context; a second \<open>teardown\<close> changes nothing; and once the state is
  \<open>Shutdown\<close>, neither \<open>connect\<close>, nor the transport's close notification, nor a step
  of a retry loop, nor any sequence of such actions moves it to another state.
\<close>

theorem teardown_idempotent_terminal:
  "(state ac \<noteq> Shutdown \<longrightarrow>
      teardown ac = ac\<lparr>state := Shutdown, stateCh := stateCh ac @ [Shutdown], transport := None,
        cancelled := True,
        closedTrs := closedTrs ac @ (case transport ac of None \<Rightarrow> [] | Some t \<Rightarrow> [t])\<rparr>) \<and>
   teardown (teardown ac) = teardown ac \<and>
   (state ac = Shutdown \<longrightarrow>
      teardown ac = ac \<and>
      state (snd (snd (connect ac))) = Shutdown \<and>
      (\<forall>t. state (onClose t ac) = Shutdown) \<and>
      (\<forall>p ev p' ac'. resetTransport_step p ev ac = Some (p', ac') \<longrightarrow> state ac' = Shutdown) \<and>
      (\<forall>as ls s'. run as (ac, ls) = Some s' \<longrightarrow> state (fst s') = Shutdown))"
proof (intro conjI impI allI)
  assume "state ac \<noteq> Shutdown"
  then show "teardown ac = ac\<lparr>state := Shutdown, stateCh := stateCh ac @ [Shutdown], transport := None,
        cancelled := True,
        closedTrs := closedTrs ac @ (case transport ac of None \<Rightarrow> [] | Some t \<Rightarrow> [t])\<rparr>"
    by (rule teardown_first)
next
  show "teardown (teardown ac) = teardown ac" by (rule teardown_second)
next
  assume "state ac = Shutdown"
  then show "teardown ac = ac" by (simp add: teardown_def)
next
  assume "state ac = Shutdown"
  then show "state (snd (snd (connect ac))) = Shutdown" by (rule connect_keeps_Shutdown)
next
  fix t assume "state ac = Shutdown"
  then show "state (onClose t ac) = Shutdown" by (rule onClose_keeps_Shutdown)
next
  fix p ev p' ac'
  assume "state ac = Shutdown" "resetTransport_step p ev ac = Some (p', ac')"
  then show "state ac' = Shutdown" by (rule step_keeps_Shutdown)
next
  fix as ls s'
  assume "state ac = Shutdown" "run as (ac, ls) = Some s'"
  then show "state (fst s') = Shutdown" using run_keeps_Shutdown [of "(ac, ls)" as s'] by simp
qed

text \<open>
  A ready connection with transport 3 is torn down, and a connection that is shut down
  stays so under a late successful dial and under a schedule of actions.
\<close>

theorem teardown_idempotent_terminal_witness:
  "state (conn_in Ready (Some 3)) \<noteq> Shutdown \<and>
   teardown (conn_in Ready (Some 3)) =
     (conn_in Ready (Some 3))\<lparr>state := Shutdown, stateCh := [Shutdown], transport := None,
        cancelled := True, closedTrs := [3]\<rparr> \<and>
   teardown (teardown (conn_in Ready (Some 3))) = teardown (conn_in Ready (Some 3)) \<and>
   state (conn_in Shutdown None) = Shutdown \<and>
   teardown (conn_in Shutdown None) = conn_in Shutdown None \<and>
   resetTransport_step (Dialing 1) (DialOk 4) (conn_in Shutdown None) =
     Some (Returned, (conn_in Shutdown None)\<lparr>closedTrs := [4]\<rparr>) \<and>
   state ((conn_in Shutdown None)\<lparr>closedTrs := [4]\<rparr>) = Shutdown \<and>
   run [Connect, OnClose 0, Loop 0 Enter] (conn_in Shutdown None, [Top]) =
     Some ((conn_in Shutdown None)\<lparr>onceDone := [0], fired := [0]\<rparr>, [Returned]) \<and>
   state (fst ((conn_in Shutdown None)\<lparr>onceDone := [0], fired := [0]\<rparr>, [Returned])) = Shutdown"
proof -
  let ?r = "conn_in Ready (Some 3)" and ?s = "conn_in Shutdown None"
  have r: "state ?r \<noteq> Shutdown" and s: "state ?s = Shutdown"
    by (simp_all add: conn_in_def)
  have e1: "resetTransport_step (Dialing 1) (DialOk 4) ?s = Some (Returned, ?s\<lparr>closedTrs := [4]\<rparr>)"
    by (simp add: conn_in_def)
  have e2: "run [Connect, OnClose 0, Loop 0 Enter] (?s, [Top]) =
      Some (?s\<lparr>onceDone := [0], fired := [0]\<rparr>, [Returned])"
    by (simp add: conn_in_def connect_def onClose_def)
  from teardown_idempotent_terminal [of ?r] r
  have "teardown ?r = ?r\<lparr>state := Shutdown, stateCh := stateCh ?r @ [Shutdown], transport := None,
        cancelled := True,
        closedTrs := closedTrs ?r @ (case transport ?r of None \<Rightarrow> [] | Some t \<Rightarrow> [t])\<rparr>"
    and t2: "teardown (teardown ?r) = teardown ?r"
    by blast+
  then have t1: "teardown ?r = ?r\<lparr>state := Shutdown, stateCh := [Shutdown], transport := None,
        cancelled := True, closedTrs := [3]\<rparr>"
    by (simp add: conn_in_def)
  from teardown_idempotent_terminal [of ?s] s
  have t3: "teardown ?s = ?s"
    and t4: "\<forall>p ev p' ac'. resetTransport_step p ev ?s = Some (p', ac') \<longrightarrow> state ac' = Shutdown"
    and t5: "\<forall>as ls s'. run as (?s, ls) = Some s' \<longrightarrow> state (fst s') = Shutdown"
    by blast+
  from t4 e1 have t6: "state (?s\<lparr>closedTrs := [4]\<rparr>) = Shutdown" by blast
  from t5 e2 have t7: "state (fst (?s\<lparr>onceDone := [0], fired := [0]\<rparr>, [Returned])) = Shutdown"
    by blast
  from r s e1 e2 t1 t2 t3 t6 t7 show ?thesis by blast
qed

section \<open>Failure of the transport of a ready connection\<close>

text \<open>
  Claim C2 says that the state goes from \<open>Ready\<close> to \<open>Connecting\<close> when the transport
  fails. The close notification of the transport of a ready connection moves the state
  to \<open>Idle\<close>, not to \<open>Connecting\<close>, and \<open>Idle\<close> is published on \<open>stateCh\<close> before
  \<open>Connecting\<close> is.
\<close>

theorem transport_failure_counterexample:
  "state (onClose 0 (conn_in Ready (Some 0))) = Idle \<and>
   state (onClose 0 (conn_in Ready (Some 0))) \<noteq> Connecting \<and>
   map_option (stateCh \<circ> fst)
     (run [OnClose 0, Loop 0 ReconnectDone, Loop 0 Enter] (conn_in Ready (Some 0), [AwaitReconnect 0]))
     = Some [Idle, Connecting]"
  by (simp add: onClose_def conn_in_def updateConnectivityState_def exponential_def NextBackOff_def)

text \<open>
  Claim C2, amended. When the close notification of a transport fires for the first
  time while the connection is \<open>Ready\<close>, the state goes from \<open>Ready\<close> to \<open>Idle\<close>; the
  retry loop, which waits for that notification, then starts its next iteration and
  moves the state from \<open>Idle\<close> to \<open>Connecting\<close> with the transport reference cleared.
  No call of \<open>connect\<close> or of any other operation of the handle is involved.
\<close>

theorem transport_failure_reconnects:
  assumes "state ac = Ready" and "t \<notin> set (onceDone ac)" and "bs (dopts ac) = Some strat"
  shows "state (onClose t ac) = Idle \<and>
         stateCh (onClose t ac) = stateCh ac @ [Idle] \<and>
         (\<exists>ac'. run [OnClose t, Loop 0 ReconnectDone, Loop 0 Enter] (ac, [AwaitReconnect t])
                  = Some (ac', [Dialing (delays strat (drawn strat))]) \<and>
                state ac' = Connecting \<and> transport ac' = None \<and>
                stateCh ac' = stateCh ac @ [Idle, Connecting])"
  using assms
  by (simp add: onClose_def updateConnectivityState_def NextBackOff_def Let_def)

text \<open>
  The same at a ready connection whose transport 0 closes.
\<close>

theorem transport_failure_reconnects_witness:
  "state (conn_in Ready (Some 0)) = Ready \<and> 0 \<notin> set (onceDone (conn_in Ready (Some 0))) \<and>
   bs (dopts (conn_in Ready (Some 0))) = Some exponential \<and>
   state (onClose 0 (conn_in Ready (Some 0))) = Idle \<and>
   stateCh (onClose 0 (conn_in Ready (Some 0))) = stateCh (conn_in Ready (Some 0)) @ [Idle] \<and>
   (\<exists>ac'. run [OnClose 0, Loop 0 ReconnectDone, Loop 0 Enter] (conn_in Ready (Some 0), [AwaitReconnect 0])
            = Some (ac', [Dialing (delays exponential (drawn exponential))]) \<and>
          state ac' = Connecting \<and> transport ac' = None \<and>
          stateCh ac' = stateCh (conn_in Ready (Some 0)) @ [Idle, Connecting])"
proof -
  have h: "state (conn_in Ready (Some 0)) = Ready" "0 \<notin> set (onceDone (conn_in Ready (Some 0)))"
    "bs (dopts (conn_in Ready (Some 0))) = Some exponential"
    by (simp_all add: conn_in_def)
  from transport_failure_reconnects [OF h] h show ?thesis
    by blast
qed

section \<open>Backoff in the retry loop\<close>

lemma run_append:
  "run (as @ as2) s = (case run as s of None \<Rightarrow> None | Some s1 \<Rightarrow> run as2 s1)"
  by (induction as arbitrary: s) (auto split: option.splits)

lemma failures_Suc: "failures (Suc n) = [Loop 0 Enter, Loop 0 DialErr, Loop 0 TimerFired] @ failures n"
  by (simp add: failures_def)

lemma failure_round:
  assumes "state ac \<noteq> Shutdown" and "bs (dopts ac) = Some strat"
  shows "\<exists>ac1. run [Loop 0 Enter, Loop 0 DialErr, Loop 0 TimerFired] (ac, [Top]) = Some (ac1, [Top]) \<and>
               state ac1 = TransientFailure \<and>
               bs (dopts ac1) = Some (strat\<lparr>drawn := Suc (drawn strat)\<rparr>)"
  using assms
  by (simp add: updateConnectivityState_def NextBackOff_def Let_def)

lemma failures_run:
  assumes "state ac \<noteq> Shutdown" and "bs (dopts ac) = Some strat"
  shows "\<exists>ac1. run (failures n) (ac, [Top]) = Some (ac1, [Top]) \<and>
               state ac1 \<noteq> Shutdown \<and>
               bs (dopts ac1) = Some (strat\<lparr>drawn := drawn strat + n\<rparr>)"
  using assms
proof (induction n arbitrary: ac strat)
  case 0
  then show ?case by (simp add: failures_def)
next
  case (Suc n)
  from failure_round [OF Suc.prems] obtain ac1 where
    r1: "run [Loop 0 Enter, Loop 0 DialErr, Loop 0 TimerFired] (ac, [Top]) = Some (ac1, [Top])"
    and s1: "state ac1 = TransientFailure"
    and b1: "bs (dopts ac1) = Some (strat\<lparr>drawn := Suc (drawn strat)\<rparr>)"
    by blast
  from s1 have s1': "state ac1 \<noteq> Shutdown" by simp
  from Suc.IH [OF s1' b1] obtain ac2 where
    r2: "run (failures n) (ac1, [Top]) = Some (ac2, [Top])"
    and s2: "state ac2 \<noteq> Shutdown"
    and b2: "bs (dopts ac2) = Some (strat\<lparr>drawn := Suc (drawn strat)\<rparr>\<lparr>drawn := drawn (strat\<lparr>drawn := Suc (drawn strat)\<rparr>) + n\<rparr>)"
    by blast
  have "run (failures (Suc n)) (ac, [Top]) = Some (ac2, [Top])"
    unfolding failures_Suc run_append using r1 r2 by simp
  moreover from b2 have "bs (dopts ac2) = Some (strat\<lparr>drawn := drawn strat + Suc n\<rparr>)" by simp
  ultimately show ?case using s2 by blast
qed

lemma success_then_failure:
  assumes "state ac \<noteq> Shutdown" and "bs (dopts ac) = Some strat"
  shows "\<exists>ac1. run [Loop 0 Enter, Loop 0 (DialOk t), OnClose t, Loop 0 ReconnectDone,
                     Loop 0 Enter, Loop 0 DialErr] (ac, [Top])
                = Some (ac1, [BackingOff (delays strat 0)]) \<and>
               bs (dopts ac1) = Some (strat\<lparr>drawn := 1\<rparr>)"
  using assms
  by (simp add: updateConnectivityState_def NextBackOff_def Reset_def onClose_def Let_def)

text \<open>
  Claim C7. An iteration of the retry loop that goes on to dial draws exactly one delay
  from the strategy before the outcome of the dial is known; a failed dial waits for
  that delay and leaves the strategy alone, a successful dial resets the strategy.
  Hence, after any number \<open>n\<close> of failed attempts followed by a successful one, the
  delay awaited at the next failed attempt is the first delay of the strategy.
\<close>

theorem backoff_drawn_then_reset:
  assumes "state ac \<noteq> Shutdown" and "bs (dopts ac) = Some strat"
  shows "(\<exists>ac1. resetTransport_step Top Enter ac = Some (Dialing (delays strat (drawn strat)), ac1) \<and>
                bs (dopts ac1) = Some (strat\<lparr>drawn := Suc (drawn strat)\<rparr>) \<and>
                (\<exists>ac2. resetTransport_step (Dialing (delays strat (drawn strat))) (DialOk t) ac1
                          = Some (AwaitReconnect t, ac2) \<and>
                        bs (dopts ac2) = Some (strat\<lparr>drawn := 0\<rparr>)) \<and>
                (\<exists>ac3. resetTransport_step (Dialing (delays strat (drawn strat))) DialErr ac1
                          = Some (BackingOff (delays strat (drawn strat)), ac3) \<and>
                        bs (dopts ac3) = Some (strat\<lparr>drawn := Suc (drawn strat)\<rparr>))) \<and>
         (\<exists>ac4. run (failures n @ [Loop 0 Enter, Loop 0 (DialOk t), OnClose t, Loop 0 ReconnectDone,
                                    Loop 0 Enter, Loop 0 DialErr]) (ac, [Top])
                  = Some (ac4, [BackingOff (delays strat 0)]))"
proof (rule conjI)
  show "\<exists>ac1. resetTransport_step Top Enter ac = Some (Dialing (delays strat (drawn strat)), ac1) \<and>
                bs (dopts ac1) = Some (strat\<lparr>drawn := Suc (drawn strat)\<rparr>) \<and>
                (\<exists>ac2. resetTransport_step (Dialing (delays strat (drawn strat))) (DialOk t) ac1
                          = Some (AwaitReconnect t, ac2) \<and>
                        bs (dopts ac2) = Some (strat\<lparr>drawn := 0\<rparr>)) \<and>
                (\<exists>ac3. resetTransport_step (Dialing (delays strat (drawn strat))) DialErr ac1
                          = Some (BackingOff (delays strat (drawn strat)), ac3) \<and>
                        bs (dopts ac3) = Some (strat\<lparr>drawn := Suc (drawn strat)\<rparr>))"
    using assms
    by (simp add: updateConnectivityState_def NextBackOff_def Reset_def Let_def)
next
  from failures_run [OF assms, of n] obtain ac1 where
    r1: "run (failures n) (ac, [Top]) = Some (ac1, [Top])"
    and s1: "state ac1 \<noteq> Shutdown"
    and b1: "bs (dopts ac1) = Some (strat\<lparr>drawn := drawn strat + n\<rparr>)"
    by blast
  from success_then_failure [OF s1 b1, of t] obtain ac4 where
    "run [Loop 0 Enter, Loop 0 (DialOk t), OnClose t, Loop 0 ReconnectDone,
          Loop 0 Enter, Loop 0 DialErr] (ac1, [Top])
       = Some (ac4, [BackingOff (delays (strat\<lparr>drawn := drawn strat + n\<rparr>) 0)])"
    by blast
  then have "run (failures n @ [Loop 0 Enter, Loop 0 (DialOk t), OnClose t, Loop 0 ReconnectDone,
                                Loop 0 Enter, Loop 0 DialErr]) (ac, [Top])
               = Some (ac4, [BackingOff (delays strat 0)])"
    unfolding run_append using r1 by simp
  then show "\<exists>ac4. run (failures n @ [Loop 0 Enter, Loop 0 (DialOk t), OnClose t, Loop 0 ReconnectDone,
                                    Loop 0 Enter, Loop 0 DialErr]) (ac, [Top])
                  = Some (ac4, [BackingOff (delays strat 0)])"
    by blast
qed

text \<open>
  With delays that double: the fourth attempt draws 8, it succeeds, and the failure that
  follows the loss of its transport waits for 1.
\<close>

theorem backoff_drawn_then_reset_witness:
  "state (conn_in Connecting None) \<noteq> Shutdown \<and>
   bs (dopts (conn_in Connecting None)) = Some exponential \<and>
   map_option snd (run (failures 3 @ [Loop 0 Enter]) (conn_in Connecting None, [Top]))
     = Some [Dialing 8] \<and>
   (\<exists>ac4. run (failures 3 @ [Loop 0 Enter, Loop 0 (DialOk 5), OnClose 5, Loop 0 ReconnectDone,
                              Loop 0 Enter, Loop 0 DialErr]) (conn_in Connecting None, [Top])
            = Some (ac4, [BackingOff 1]))"
proof -
  have h: "state (conn_in Connecting None) \<noteq> Shutdown"
    "bs (dopts (conn_in Connecting None)) = Some exponential"
    by (simp_all add: conn_in_def)
  have e: "map_option snd (run (failures 3 @ [Loop 0 Enter]) (conn_in Connecting None, [Top]))
     = Some [Dialing 8]"
    by (simp add: failures_def numeral_3_eq_3 conn_in_def exponential_def
        updateConnectivityState_def NextBackOff_def)
  from backoff_drawn_then_reset [OF h, of 5 3]
  have "\<exists>ac4. run (failures 3 @ [Loop 0 Enter, Loop 0 (DialOk 5), OnClose 5, Loop 0 ReconnectDone,
                              Loop 0 Enter, Loop 0 DialErr]) (conn_in Connecting None, [Top])
            = Some (ac4, [BackingOff (delays exponential 0)])"
    by blast
  then have "\<exists>ac4. run (failures 3 @ [Loop 0 Enter, Loop 0 (DialOk 5), OnClose 5, Loop 0 ReconnectDone,
                              Loop 0 Enter, Loop 0 DialErr]) (conn_in Connecting None, [Top])
            = Some (ac4, [BackingOff 1])"
    by (simp add: exponential_def)
  with h e show ?thesis by blast
qed

section \<open>Dial\<close>

lemma apply_opts_Returns:
  "NilOption \<notin> set opts \<Longrightarrow> \<exists>d1. apply_opts opts d = Returns d1"
proof (induction opts arbitrary: d)
  case Nil
  then show ?case by simp
next
  case (Cons opt opts)
  then show ?case by (cases opt) (simp_all add: DialOption_apply_def)
qed

lemma failures_end_in_TransientFailure:
  assumes "state ac \<noteq> Shutdown" and "bs (dopts ac) = Some strat"
  shows "\<exists>ac1. run (failures (Suc n)) (ac, [Top]) = Some (ac1, [Top]) \<and> state ac1 = TransientFailure"
  using assms
proof (induction n arbitrary: ac strat)
  case 0
  from failure_round [OF 0] show ?case by (auto simp: failures_def)
next
  case (Suc n)
  from failure_round [OF Suc.prems] obtain ac1 where
    r1: "run [Loop 0 Enter, Loop 0 DialErr, Loop 0 TimerFired] (ac, [Top]) = Some (ac1, [Top])"
    and s1: "state ac1 = TransientFailure"
    and b1: "bs (dopts ac1) = Some (strat\<lparr>drawn := Suc (drawn strat)\<rparr>)"
    by blast
  from s1 have "state ac1 \<noteq> Shutdown" by simp
  from Suc.IH [OF this b1] obtain ac2 where
    r2: "run (failures (Suc n)) (ac1, [Top]) = Some (ac2, [Top])" and s2: "state ac2 = TransientFailure"
    by blast
  have "run (failures (Suc (Suc n))) (ac, [Top]) = Some (ac2, [Top])"
    unfolding failures_Suc [of "Suc n"] run_append using r1 r2 by simp
  with s2 show ?case by blast
qed

text \<open>
  While every dial attempt fails, the retry loop keeps the state in \<open>Connecting\<close> or
  \<open>TransientFailure\<close>.
\<close>

lemma failing_step_not_Ready:
  assumes "state ac \<in> {Connecting, TransientFailure}"
    and "ev \<in> {Enter, DialErr, TimerFired}"
    and "resetTransport_step p ev ac = Some (p1, ac1)"
  shows "state ac1 \<in> {Connecting, TransientFailure}"
  using assms
  by (cases "(p, ev, ac)" rule: resetTransport_step.cases)
     (auto simp: updateConnectivityState_def NextBackOff_def Let_def
           split: if_splits option.splits prod.splits)

lemma failing_run_not_Ready:
  assumes "state (fst s) \<in> {Connecting, TransientFailure}"
    and "set as \<subseteq> {Loop 0 Enter, Loop 0 DialErr, Loop 0 TimerFired}"
    and "run as s = Some s1"
  shows "state (fst s1) \<in> {Connecting, TransientFailure}"
  using assms
proof (induction as arbitrary: s)
  case Nil
  then show ?case by simp
next
  case (Cons a as)
  obtain ac ls where s: "s = (ac, ls)" by (cases s)
  from Cons.prems(3) obtain s2 where a: "sys_step a s = Some s2" and r: "run as s2 = Some s1"
    by (auto split: option.splits)
  from Cons.prems(2) obtain ev where ev: "a = Loop 0 ev" "ev \<in> {Enter, DialErr, TimerFired}"
    by auto
  from a s ev obtain p1 ac1 where
    st: "resetTransport_step (ls ! 0) ev ac = Some (p1, ac1)" and s2: "s2 = (ac1, ls[0 := p1])"
    by (auto split: if_splits option.splits)
  from Cons.prems(1) s have "state ac \<in> {Connecting, TransientFailure}" by simp
  from failing_step_not_Ready [OF this ev(2) st] s2
  have "state (fst s2) \<in> {Connecting, TransientFailure}" by simp
  moreover from Cons.prems(2) have "set as \<subseteq> {Loop 0 Enter, Loop 0 DialErr, Loop 0 TimerFired}"
    by simp
  ultimately show ?case using Cons.IH r by blast
qed

lemma set_failures: "set (failures n) \<subseteq> {Loop 0 Enter, Loop 0 DialErr, Loop 0 TimerFired}"
  by (induction n) (auto simp: failures_def)

lemma failures_prefix_not_Ready:
  assumes "state ac = Connecting" and "bs (dopts ac) = Some strat"
  shows "\<exists>ac1 ls1. run (take k (failures n)) (ac, [Top]) = Some (ac1, ls1) \<and>
                   state ac1 \<in> {Connecting, TransientFailure}"
proof -
  from assms(1) have ns: "state ac \<noteq> Shutdown" by simp
  from failures_run [OF ns assms(2), of n] obtain ac2 where
    "run (failures n) (ac, [Top]) = Some (ac2, [Top])" by blast
  then have "run (take k (failures n) @ drop k (failures n)) (ac, [Top]) = Some (ac2, [Top])"
    by simp
  then obtain s1 where r: "run (take k (failures n)) (ac, [Top]) = Some s1"
    unfolding run_append by (auto split: option.splits)
  have "set (take k (failures n)) \<subseteq> {Loop 0 Enter, Loop 0 DialErr, Loop 0 TimerFired}"
    using set_failures [of n] set_take_subset [of k "failures n"] by blast
  from failing_run_not_Ready [OF _ this r] assms(1)
  have "state (fst s1) \<in> {Connecting, TransientFailure}" by simp
  with r show ?thesis by (cases s1) auto
qed

text \<open>
  \<open>Dial\<close> never returns the error of its error branch, whatever the options are.
\<close>

lemma Dial_no_error: "Dial strat tgt opts \<noteq> Returns (Inl e)"
  by (cases "apply_opts opts defaultDialOptions")
     (simp_all add: Dial_def newAddrConn_def connect_def Let_def)

text \<open>
  Claim C10 says that \<open>Dial\<close> returns a handle and a nil error for every target and
  every set of dial options. A nil \<open>DialOption\<close> among the options makes \<open>Dial\<close> panic
  when it applies the options, before a handle exists.
\<close>

theorem Dial_nil_option_counterexample:
  "Dial exponential ''peer:1'' [NilOption] = Panics \<and>
   Dial exponential ''peer:1'' [WithTransportCreds 7, NilOption] = Panics"
  by (simp add: Dial_def DialOption_apply_def WithTransportCreds_def Let_def)

text \<open>
  Claim C10, amended. For every target and every list of dial options none of which is
  nil, \<open>Dial\<close> returns a nil error and the handle for that target: its options are the
  defaults changed by the given options in order, with the backoff strategy set; its
  connection is for the target, in state \<open>Connecting\<close> (published) and without a
  transport; the \<open>listenForRead\<close> goroutine and one retry loop are started. The error
  branch is not reached, since \<open>newAddrConn\<close> never returns an error. An unreachable
  target shows only afterwards: as long as every dial attempt of the retry loop fails,
  the state is \<open>Connecting\<close> or \<open>TransientFailure\<close> at every point, it is
  \<open>TransientFailure\<close> after every failed attempt, and \<open>Invoke\<close> returns the not-ready
  error.
\<close>

theorem Dial_returns_handle:
  assumes "NilOption \<notin> set opts"
  shows "\<exists>d ac0 h.
      apply_opts opts defaultDialOptions = Returns d \<and>
      ac0 = \<lparr>addr = tgt, dopts = d\<lparr>bs := Some strat\<rparr>, transport = None, state = Connecting,
             stateCh = [Connecting], cancelled = False, closedTrs = [], writes = [],
             onceDone = [], fired = []\<rparr> \<and>
      h = \<lparr>target = tgt, cc_dopts = d\<lparr>bs := Some strat\<rparr>, conn = Some ac0,
           methodCalls = Map.empty, nextChan = 0\<rparr> \<and>
      Dial strat tgt opts = Returns (Inr (h, [ListenForRead, ResetTransport])) \<and>
      (\<forall>cc0 a. \<exists>r. newAddrConn cc0 a = Inr r) \<and>
      Invoke mpm pm uuid h meth args = InvokeReturns ''connection is not ready'' h \<and>
      (\<forall>n. \<exists>ac1. run (failures (Suc n)) (ac0, [Top]) = Some (ac1, [Top]) \<and>
                  state ac1 = TransientFailure) \<and>
      (\<forall>n k. \<exists>ac1 ls1. run (take k (failures n)) (ac0, [Top]) = Some (ac1, ls1) \<and>
                  state ac1 \<in> {Connecting, TransientFailure} \<and>
                  Invoke mpm pm uuid (h\<lparr>conn := Some ac1\<rparr>) meth args
                    = InvokeReturns ''connection is not ready'' (h\<lparr>conn := Some ac1\<rparr>))"
proof -
  from apply_opts_Returns [OF assms] obtain d where d: "apply_opts opts defaultDialOptions = Returns d"
    by blast
  define ac0 where "ac0 = \<lparr>addr = tgt, dopts = d\<lparr>bs := Some strat\<rparr>, transport = None,
             state = Connecting, stateCh = [Connecting], cancelled = False, closedTrs = [],
             writes = [], onceDone = [], fired = []\<rparr>"
  define h where "h = \<lparr>target = tgt, cc_dopts = d\<lparr>bs := Some strat\<rparr>, conn = Some ac0,
           methodCalls = Map.empty, nextChan = 0\<rparr>"
  have st: "state ac0 = Connecting" and ns: "state ac0 \<noteq> Shutdown"
    and b: "bs (dopts ac0) = Some strat"
    by (simp_all add: ac0_def)
  have D: "Dial strat tgt opts = Returns (Inr (h, [ListenForRead, ResetTransport]))"
    using d
    by (simp add: Dial_def newAddrConn_def connect_def updateConnectivityState_def Let_def
        h_def ac0_def)
  have N: "\<forall>cc0 a. \<exists>r. newAddrConn cc0 a = Inr r"
    by (simp add: newAddrConn_def Let_def)
  have I: "Invoke mpm pm uuid h meth args = InvokeReturns ''connection is not ready'' h"
    by (simp add: Invoke_def h_def ac0_def)
  have F: "\<forall>n. \<exists>ac1. run (failures (Suc n)) (ac0, [Top]) = Some (ac1, [Top]) \<and>
                  state ac1 = TransientFailure"
    using failures_end_in_TransientFailure [OF ns b] by blast
  have P: "\<forall>n k. \<exists>ac1 ls1. run (take k (failures n)) (ac0, [Top]) = Some (ac1, ls1) \<and>
                  state ac1 \<in> {Connecting, TransientFailure} \<and>
                  Invoke mpm pm uuid (h\<lparr>conn := Some ac1\<rparr>) meth args
                    = InvokeReturns ''connection is not ready'' (h\<lparr>conn := Some ac1\<rparr>)"
  proof (intro allI)
    fix n k
    from failures_prefix_not_Ready [OF st b, of k n] obtain ac1 ls1 where
      r: "run (take k (failures n)) (ac0, [Top]) = Some (ac1, ls1)"
      and s: "state ac1 \<in> {Connecting, TransientFailure}"
      by blast
    from s have "state ac1 \<noteq> Ready" by auto
    then have "Invoke mpm pm uuid (h\<lparr>conn := Some ac1\<rparr>) meth args
                    = InvokeReturns ''connection is not ready'' (h\<lparr>conn := Some ac1\<rparr>)"
      by (simp add: Invoke_def)
    with r s show "\<exists>ac1 ls1. run (take k (failures n)) (ac0, [Top]) = Some (ac1, ls1) \<and>
                  state ac1 \<in> {Connecting, TransientFailure} \<and>
                  Invoke mpm pm uuid (h\<lparr>conn := Some ac1\<rparr>) meth args
                    = InvokeReturns ''connection is not ready'' (h\<lparr>conn := Some ac1\<rparr>)"
      by blast
  qed
  show ?thesis
    by (rule exI [of _ d], rule exI [of _ ac0], rule exI [of _ h])
       (intro conjI d ac0_def h_def D N I F P)
qed

text \<open>
  With the one option that sets the transport credentials: the handle carries the
  target, the credentials and the strategy, and two failed attempts leave the
  connection in \<open>TransientFailure\<close>.
\<close>

theorem Dial_returns_handle_witness:
  "NilOption \<notin> set [WithTransportCreds 7] \<and>
   Dial exponential ''peer:1'' [WithTransportCreds 7] =
     Returns (Inr (\<lparr>target = ''peer:1'',
                     cc_dopts = \<lparr>copts = \<lparr>TransportCredentials = Some 7\<rparr>, bs = Some exponential\<rparr>,
                     conn = Some \<lparr>addr = ''peer:1'',
               dopts = \<lparr>copts = \<lparr>TransportCredentials = Some 7\<rparr>, bs = Some exponential\<rparr>,
               transport = None, state = Connecting, stateCh = [Connecting],
               cancelled = False, closedTrs = [], writes = [], onceDone = [],
               fired = []\<rparr>,
                     methodCalls = Map.empty, nextChan = 0\<rparr>,
                   [ListenForRead, ResetTransport])) \<and>
   (\<exists>ac1. run (failures 2)
            (\<lparr>addr = ''peer:1'',
               dopts = \<lparr>copts = \<lparr>TransportCredentials = Some 7\<rparr>, bs = Some exponential\<rparr>,
               transport = None, state = Connecting, stateCh = [Connecting],
               cancelled = False, closedTrs = [], writes = [], onceDone = [],
               fired = []\<rparr>, [Top]) = Some (ac1, [Top]) \<and>
          state ac1 = TransientFailure)"
proof -
  have n: "NilOption \<notin> set [WithTransportCreds 7]"
    by (simp add: WithTransportCreds_def)
  have a: "apply_opts [WithTransportCreds 7] defaultDialOptions =
      Returns \<lparr>copts = \<lparr>TransportCredentials = Some 7\<rparr>, bs = None\<rparr>"
    by (simp add: WithTransportCreds_def DialOption_apply_def defaultDialOptions_def)
  from Dial_returns_handle [OF n, where tgt = "''peer:1''" and strat = exponential
      and mpm = "\<lambda>a. Inr (a :: bytes)" and pm = "\<lambda>m. Inr [1]" and uuid = "''call-1''"
      and meth = "''Echo''" and args = "[104, 105]"]
  obtain d ac0 h where C:
    "apply_opts [WithTransportCreds 7] defaultDialOptions = Returns d \<and>
      ac0 = \<lparr>addr = ''peer:1'', dopts = d\<lparr>bs := Some exponential\<rparr>, transport = None,
             state = Connecting, stateCh = [Connecting], cancelled = False, closedTrs = [],
             writes = [], onceDone = [], fired = []\<rparr> \<and>
      h = \<lparr>target = ''peer:1'', cc_dopts = d\<lparr>bs := Some exponential\<rparr>, conn = Some ac0,
           methodCalls = Map.empty, nextChan = 0\<rparr> \<and>
      Dial exponential ''peer:1'' [WithTransportCreds 7]
        = Returns (Inr (h, [ListenForRead, ResetTransport])) \<and>
      (\<forall>cc0 a. \<exists>r. newAddrConn cc0 a = Inr r) \<and>
      Invoke (\<lambda>a. Inr (a :: bytes)) (\<lambda>m. Inr [1]) ''call-1'' h ''Echo'' [104, 105]
        = InvokeReturns ''connection is not ready'' h \<and>
      (\<forall>n. \<exists>ac1. run (failures (Suc n)) (ac0, [Top]) = Some (ac1, [Top]) \<and>
                  state ac1 = TransientFailure) \<and>
      (\<forall>n k. \<exists>ac1 ls1. run (take k (failures n)) (ac0, [Top]) = Some (ac1, ls1) \<and>
                  state ac1 \<in> {Connecting, TransientFailure} \<and>
                  Invoke (\<lambda>a. Inr (a :: bytes)) (\<lambda>m. Inr [1]) ''call-1'' (h\<lparr>conn := Some ac1\<rparr>)
                      ''Echo'' [104, 105]
                    = InvokeReturns ''connection is not ready'' (h\<lparr>conn := Some ac1\<rparr>))"
    by (elim exE) (rule that)
  note d = C [THEN conjunct1]
    and ac0 = C [THEN conjunct2, THEN conjunct1]
    and h = C [THEN conjunct2, THEN conjunct2, THEN conjunct1]
    and D = C [THEN conjunct2, THEN conjunct2, THEN conjunct2, THEN conjunct1]
    and F = C [THEN conjunct2, THEN conjunct2, THEN conjunct2, THEN conjunct2, THEN conjunct2,
               THEN conjunct2, THEN conjunct1]
  from d a have e: "d = \<lparr>copts = \<lparr>TransportCredentials = Some 7\<rparr>, bs = None\<rparr>"
    by simp
  from ac0 e have ac0': "ac0 = \<lparr>addr = ''peer:1'',
               dopts = \<lparr>copts = \<lparr>TransportCredentials = Some 7\<rparr>, bs = Some exponential\<rparr>,
               transport = None, state = Connecting, stateCh = [Connecting],
               cancelled = False, closedTrs = [], writes = [], onceDone = [],
               fired = []\<rparr>"
    by simp
  from h e ac0' have h': "h = \<lparr>target = ''peer:1'',
                     cc_dopts = \<lparr>copts = \<lparr>TransportCredentials = Some 7\<rparr>, bs = Some exponential\<rparr>,
                     conn = Some \<lparr>addr = ''peer:1'',
               dopts = \<lparr>copts = \<lparr>TransportCredentials = Some 7\<rparr>, bs = Some exponential\<rparr>,
               transport = None, state = Connecting, stateCh = [Connecting],
               cancelled = False, closedTrs = [], writes = [], onceDone = [],
               fired = []\<rparr>,
                     methodCalls = Map.empty, nextChan = 0\<rparr>"
    by simp
  from F have "\<exists>ac1. run (failures (Suc 1)) (ac0, [Top]) = Some (ac1, [Top]) \<and>
                  state ac1 = TransientFailure"
    by (rule spec)
  then have F2: "\<exists>ac1. run (failures 2) (ac0, [Top]) = Some (ac1, [Top]) \<and>
                  state ac1 = TransientFailure"
    by (simp only: Suc_1)
  show ?thesis
    by (intro conjI n D [unfolded h'] F2 [unfolded ac0'])
qed

section \<open>Invoke\<close>

text \<open>
  Claim C8. \<open>Invoke\<close> on a handle whose connection is not \<open>Ready\<close> returns the
  not-ready error at once and leaves the handle as it was: no call is registered and no
  frame is written.
\<close>

theorem Invoke_not_ready:
  assumes "conn cc1 = Some c" and "state c \<noteq> Ready"
  shows "Invoke mpm pm uuid cc1 method args = InvokeReturns ''connection is not ready'' cc1"
  using assms by (simp add: Invoke_def)

text \<open>
  The same on a handle whose connection is in \<open>TransientFailure\<close>.
\<close>

theorem Invoke_not_ready_witness:
  "conn (handle_in TransientFailure None) = Some (conn_in TransientFailure None) \<and>
   state (conn_in TransientFailure None) \<noteq> Ready \<and>
   Invoke (\<lambda>a. Inr a) (\<lambda>m. Inr [1]) ''call-1'' (handle_in TransientFailure None) ''Echo'' [104, 105 :: nat]
     = InvokeReturns ''connection is not ready'' (handle_in TransientFailure None)"
proof -
  have h: "conn (handle_in TransientFailure None) = Some (conn_in TransientFailure None)"
    "state (conn_in TransientFailure None) \<noteq> Ready"
    by (simp_all add: handle_in_def conn_in_def)
  from Invoke_not_ready [OF h] h show ?thesis by simp
qed

text \<open>
  \<open>Close\<close> sets \<open>cc.conn\<close> to nil, and \<open>Invoke\<close> reads \<open>cc.conn.state\<close> first.
\<close>

lemma Close_then_Invoke:
  "Close cc1 = Returns (cc2, ac) \<Longrightarrow> Invoke mpm pm uuid cc2 method args = InvokePanics"
  by (auto simp: Close_def Invoke_def split: option.splits)

text \<open>
  Claim C3 says that \<open>Invoke\<close> after \<open>Close\<close> returns the closing error. On the handle
  that \<open>Dial\<close> returns, \<open>Close\<close> followed by \<open>Invoke\<close> panics on the nil connection
  pointer instead.
\<close>

theorem Invoke_after_Close_panics:
  "Dial exponential ''peer:1'' [] = Returns (Inr (handle_in Connecting None
       \<lparr>conn := Some ((conn_in Connecting None)\<lparr>stateCh := [Connecting]\<rparr>)\<rparr>,
       [ListenForRead, ResetTransport])) \<and>
   Close (handle_in Connecting None\<lparr>conn := Some ((conn_in Connecting None)\<lparr>stateCh := [Connecting]\<rparr>)\<rparr>)
     = Returns ((handle_in Connecting None)\<lparr>conn := None\<rparr>,
         (conn_in Connecting None)\<lparr>state := Shutdown, stateCh := [Connecting, Shutdown],
            cancelled := True\<rparr>) \<and>
   Invoke (\<lambda>a. Inr a) (\<lambda>m. Inr [1]) ''call-1'' ((handle_in Connecting None)\<lparr>conn := None\<rparr>)
     ''Echo'' [104, 105 :: nat] = InvokePanics"
  by (simp add: Dial_def newAddrConn_def connect_def updateConnectivityState_def Close_def
      teardown_def Invoke_def handle_in_def conn_in_def defaultDialOptions_def Let_def)

section \<open>The read-dispatch loops of a connection\<close>

lemma listenForRead_iter_closes_nothing: "closedDone (listenForRead_iter s rl) = closedDone rl"
  by (simp add: listenForRead_iter_def Let_def)

lemma listenForRead_closes_nothing: "closedDone (listenForRead ss rl) = closedDone rl"
  unfolding listenForRead_def
  by (induction ss arbitrary: rl) (simp_all add: listenForRead_iter_closes_nothing)

lemma listenForRead_all_active:
  "closedDone rl = [] \<Longrightarrow> activeReaders (listenForRead ss rl) = started (listenForRead ss rl)"
  by (simp add: activeReaders_def listenForRead_closes_nothing)

text \<open>
  Claim C6 says that the read-dispatch loop of a connection is stopped when the
  connection leaves \<open>Ready\<close>, so that at most one is active. A dial that succeeds, the
  loss of the transport and a second dial that succeeds publish \<open>Connecting\<close>, \<open>Ready\<close>,
  \<open>Idle\<close>, \<open>Connecting\<close>, \<open>Ready\<close>; on these, \<open>listenForRead\<close> starts two
  \<open>handleRead\<close> loops and closes the \<open>done\<close> channel of neither, so both are active.
\<close>

theorem two_read_loops_active:
  "map_option (stateCh \<circ> fst)
     (run [Connect, Loop 0 Enter, Loop 0 (DialOk 0), OnClose 0, Loop 0 ReconnectDone,
           Loop 0 Enter, Loop 0 (DialOk 1)] (conn_in Idle None, []))
     = Some [Connecting, Ready, Idle, Connecting, Ready] \<and>
   listenForRead [Connecting, Ready, Idle, Connecting, Ready]
       \<lparr>nextDone = 0, started = [], closedDone = []\<rparr>
     = \<lparr>nextDone = 2, started = [0, 1], closedDone = []\<rparr> \<and>
   activeReaders (listenForRead [Connecting, Ready, Idle, Connecting, Ready]
       \<lparr>nextDone = 0, started = [], closedDone = []\<rparr>) = [0, 1]"
  by (simp add: conn_in_def connect_def onClose_def updateConnectivityState_def exponential_def
      NextBackOff_def Reset_def listenForRead_def listenForRead_iter_def activeReaders_def
      numeral_2_eq_2)

section \<open>Responses and the call table\<close>

text \<open>
  A response frame whose call identifier has no entry in the call table leaves the
  handle, its call table and every caller as they were, and \<open>handleRead\<close> returns to
  the head of its loop. The loop goes on reading when the connection of the handle and
  its transport are in place there, and panics when either is nil.
\<close>

lemma unmatched_response_dropped:
  assumes "um inb = Inr (Message_Response r)"
    and "methodCalls (cc w) (GetCallId r) = None"
    and "reader w = Reading"
    and "\<not> mu w"
  shows "step um (Frame inb) w = Some (w\<lparr>reader := AtHead\<rparr>)"
  using assms by (simp add: step_def ended_def handleRead_def handleMessageResponse_def)

lemma unmatched_response_live:
  assumes "um inb = Inr (Message_Response r)"
    and "methodCalls (cc w) (GetCallId r) = None"
    and "reader w = Reading"
    and "\<not> mu w"
    and "conn (cc w) = Some c"
    and "transport c = Some t"
  shows "steps um [Frame inb, Head] w = Some w"
  using assms
  by (simp add: step_def ended_def handleRead_def handleMessageResponse_def loop_head_def)

lemma loop_head_nil_conn: "conn (cc w) = None \<Longrightarrow> loop_head w = w\<lparr>reader := Crashed\<rparr>"
  by (simp add: loop_head_def)

lemma loop_head_nil_transport:
  "conn (cc w) = Some c \<Longrightarrow> transport c = None \<Longrightarrow> loop_head w = w\<lparr>reader := Crashed\<rparr>"
  by (simp add: loop_head_def)



text \<open>
  A call that is registered, answered and whose answer arrives a second time; and a call
  that times out before its answer arrives. In both the entry is removed once and the
  later frame changes nothing.
\<close>

lemma register_pending: "steps unmarshal1 [Register ''call-1''] world0 = Some pending1"
  by (simp add: step_def ended_def world0_def pending1_def registerMethodCall_def handle_in_def
      Let_def)

lemma delivery_then_duplicate:
  "steps unmarshal1 [Frame [1], Rendezvous, Head] pending1 =
     Some (pending1\<lparr>cc := removeMethodCall ''call-1'' (cc pending1),
                    callers := [0 \<mapsto> (''call-1'', GotReply [7])]\<rparr>) \<and>
   methodCalls (removeMethodCall ''call-1'' (cc pending1)) ''call-1'' = None \<and>
   steps unmarshal1 [Frame [1], Head]
       (pending1\<lparr>cc := removeMethodCall ''call-1'' (cc pending1),
                 callers := [0 \<mapsto> (''call-1'', GotReply [7])]\<rparr>)
     = Some (pending1\<lparr>cc := removeMethodCall ''call-1'' (cc pending1),
                     callers := [0 \<mapsto> (''call-1'', GotReply [7])]\<rparr>)"
  by (simp add: step_def ended_def pending1_def handleRead_def handleMessageResponse_def
      unmarshal1_def removeMethodCall_def sending_on_def loop_head_def handle_in_def conn_in_def)

lemma timeout_then_late_response:
  "steps unmarshal1 [TimerFires 0, TimeoutRemove 0] pending1 =
     Some (pending1\<lparr>cc := removeMethodCall ''call-1'' (cc pending1),
                    callers := [0 \<mapsto> (''call-1'', GotTimeout)]\<rparr>) \<and>
   steps unmarshal1 [Frame [1], Head]
       (pending1\<lparr>cc := removeMethodCall ''call-1'' (cc pending1),
                 callers := [0 \<mapsto> (''call-1'', GotTimeout)]\<rparr>)
     = Some (pending1\<lparr>cc := removeMethodCall ''call-1'' (cc pending1),
                     callers := [0 \<mapsto> (''call-1'', GotTimeout)]\<rparr>)"
  by (simp add: step_def ended_def pending1_def handleRead_def handleMessageResponse_def
      unmarshal1_def removeMethodCall_def sending_on_def loop_head_def handle_in_def conn_in_def)

lemma delivery_completes:
  assumes "um inb = Inr (Message_Response r)"
    and "methodCalls (cc w) (GetCallId r) = Some ch"
    and "callers w ch = Some (callID, InSelect)"
    and "reader w = Reading" and "\<not> mu w"
  shows "steps um [Frame inb, Rendezvous] w =
           Some (w\<lparr>cc := removeMethodCall (GetCallId r) (cc w),
                   callers := (callers w)(ch \<mapsto> (callID, GotReply (GetPayload r))),
                   reader := AtHead\<rparr>)"
  using assms by (simp add: step_def ended_def handleRead_def handleMessageResponse_def)

lemma timeout_completes:
  assumes "callers w ch = Some (callID, InSelect)"
    and "reader w = Reading" and "\<not> mu w"
  shows "steps um [TimerFires ch, TimeoutRemove ch] w =
           Some (w\<lparr>cc := removeMethodCall callID (cc w),
                   callers := (callers w)(ch \<mapsto> (callID, GotTimeout))\<rparr>)"
  using assms by (simp add: step_def ended_def sending_on_def)

lemma deadlocked_stuck: "step um a deadlocked = None"
  by (cases a) (simp_all add: step_def ended_def deadlocked_def sending_on_def)

text \<open>
  Claim C1 says that the entry of a pending call is removed exactly once, by the
  delivery of the response or by the timeout, and that the loser of the race has no
  effect. When the caller of \<open>call-1\<close> has taken the timeout case of its \<open>select\<close>
  and the response to \<open>call-1\<close> is dispatched before the caller locks \<open>cc.mu\<close>,
  \<open>handleMessageResponse\<close> holds \<open>cc.mu\<close> in a send that no one receives: the entry
  stays in the table and no goroutine can take a step.
\<close>

theorem response_after_timeout_chosen_deadlocks:
  "steps unmarshal1 [Register ''call-1'', TimerFires 0, Frame [1]] world0 = Some deadlocked \<and>
   methodCalls (cc deadlocked) ''call-1'' = Some 0 \<and>
   callers deadlocked 0 = Some (''call-1'', TimeoutChosen) \<and>
   mu deadlocked \<and>
   reader deadlocked = Sending 0 (Response ''call-1'' [7]) \<and>
   (\<forall>a. step unmarshal1 a deadlocked = None)"
proof -
  have "steps unmarshal1 [Register ''call-1'', TimerFires 0, Frame [1]] world0 = Some deadlocked"
    by (simp add: step_def ended_def world0_def deadlocked_def registerMethodCall_def
        handleRead_def handleMessageResponse_def unmarshal1_def handle_in_def sending_on_def
        Let_def)
  moreover have "methodCalls (cc deadlocked) ''call-1'' = Some 0"
    "callers deadlocked 0 = Some (''call-1'', TimeoutChosen)" "mu deadlocked"
    "reader deadlocked = Sending 0 (Response ''call-1'' [7])"
    by (simp_all add: deadlocked_def)
  moreover have "\<forall>a. step unmarshal1 a deadlocked = None"
    by (simp add: deadlocked_stuck)
  ultimately show ?thesis by blast
qed

end
